theory Spec2Isabelle
  imports Complex_Main "HOL-Library.Char_ord" "HOL-Library.Monad_Syntax"
begin

section \<open>Numbers and the feature vector\<close>

text \<open>
  The TypeScript \<open>number\<close> values of \<open>src/lib/aiFeatures.ts\<close> are modelled as
  mathematical reals: the arithmetic of the source is read as exact arithmetic, and the
  values NaN and Infinity are outside the model.
\<close>

definition clamp01 :: "real \<Rightarrow> real" where
  "clamp01 x = max 0 (min 1 x)"

text \<open>
  The field \<open>uniformity\<close> of the source is \<open>uniformity'\<close> here: \<open>uniformity\<close> is a constant
  of the library.
\<close>

record AIFeatureVector =
  avgRepetition :: real
  avgVocabDiversity :: real
  genericRate :: real
  transitionRate :: real
  uniformity' :: real

section \<open>Strings and regular expressions\<close>

text \<open>
  A JavaScript string is modelled as a list of Isabelle's 8-bit characters, read as the
  UTF-16 code units U+0000 to U+00FF; \<open>length\<close> is the \<open>length\<close> property.  The
  regular expressions of the source are kept as data (\<open>regex\<close>) and run by a small
  backtracking matcher that follows the order in which JavaScript tries alternatives and
  greedy repetitions.
\<close>

definition isSpace :: "char \<Rightarrow> bool" where
  \<comment> \<open>the class \<open>\s\<close>, also the white space removed by \<open>trim\<close>: TAB, LF, VT, FF, CR, SP, NBSP\<close>
  "isSpace c = (c \<in> set [CHR 0x09, CHR 0x0A, CHR 0x0B, CHR 0x0C, CHR 0x0D, CHR 0x20, CHR 0xA0])"

definition isDigit :: "char \<Rightarrow> bool" where
  "isDigit c = (CHR ''0'' \<le> c \<and> c \<le> CHR ''9'')"

definition isUpper :: "char \<Rightarrow> bool" where
  "isUpper c = (CHR ''A'' \<le> c \<and> c \<le> CHR ''Z'')"

definition isLower :: "char \<Rightarrow> bool" where
  "isLower c = (CHR ''a'' \<le> c \<and> c \<le> CHR ''z'')"

definition isWordChar :: "char \<Rightarrow> bool" where
  \<comment> \<open>the class \<open>\w\<close> that decides \<open>\b\<close>\<close>
  "isWordChar c = (isLower c \<or> isUpper c \<or> isDigit c \<or> c = CHR ''_'')"

definition lowerChar :: "char \<Rightarrow> char" where
  \<comment> \<open>\<open>toLowerCase\<close> of one code unit below U+0100: A-Z, and U+00C0 to U+00DE but U+00D7\<close>
  "lowerChar c =
     (if isUpper c \<or> (CHR 0xC0 \<le> c \<and> c \<le> CHR 0xDE \<and> c \<noteq> CHR 0xD7)
      then char_of (of_char c + (32::nat)) else c)"

definition upperChar :: "char \<Rightarrow> char" where
  \<comment> \<open>the canonical form of a code unit below U+0100 under the \<open>i\<close> flag, where it is again
      below U+0100: a-z, and U+00E0 to U+00FE but U+00F7, go to upper case\<close>
  "upperChar c =
     (if isLower c \<or> (CHR 0xE0 \<le> c \<and> c \<le> CHR 0xFE \<and> c \<noteq> CHR 0xF7)
      then char_of (of_char c - (32::nat)) else c)"

definition toLowerCase :: "string \<Rightarrow> string" where
  "toLowerCase s = map lowerChar s"

definition trim :: "string \<Rightarrow> string" where
  "trim s = rev (dropWhile isSpace (rev (dropWhile isSpace s)))"

datatype citem = Ch char | FromTo char char | Digit | Space

datatype regex =
    Empty
  | Cls "citem list"
  | NCls "citem list"
  | Seq regex regex
  | Alt regex regex
  | Star regex
  | WordB
  | Eos

text \<open>
  \<open>Cls\<close> is a class \<open>[...]\<close> (a single character or escape is a class of one item),
  \<open>NCls\<close> a negated class \<open>[^...]\<close>, \<open>Star\<close> the greedy \<open>*\<close>, \<open>WordB\<close> is \<open>\b\<close> and
  \<open>Eos\<close> is \<open>$\<close> without the \<open>m\<close> flag.  The other operators are written with these.
\<close>

definition Plus :: "regex \<Rightarrow> regex" where
  "Plus r = Seq r (Star r)"

definition Opt :: "regex \<Rightarrow> regex" where
  "Opt r = Alt r Empty"

fun Lit :: "string \<Rightarrow> regex" where
  "Lit [] = Empty"
| "Lit (c # cs) = Seq (Cls [Ch c]) (Lit cs)"

fun Rep :: "nat \<Rightarrow> regex \<Rightarrow> regex" where
  "Rep 0 r = Empty"
| "Rep (Suc n) r = Seq r (Rep n r)"

fun UpTo :: "nat \<Rightarrow> regex \<Rightarrow> regex" where
  "UpTo 0 r = Empty"
| "UpTo (Suc n) r = Opt (Seq r (UpTo n r))"

definition Between :: "nat \<Rightarrow> nat \<Rightarrow> regex \<Rightarrow> regex" where
  \<comment> \<open>the greedy \<open>r{n,m}\<close>\<close>
  "Between n m r = Seq (Rep n r) (UpTo (m - n) r)"

definition AtLeast :: "nat \<Rightarrow> regex \<Rightarrow> regex" where
  \<comment> \<open>the greedy \<open>r{n,}\<close>\<close>
  "AtLeast n r = Seq (Rep n r) (Star r)"

fun Seqs :: "regex list \<Rightarrow> regex" where
  "Seqs [] = Empty"
| "Seqs (r # rs) = Seq r (Seqs rs)"

fun Alts :: "regex list \<Rightarrow> regex" where
  "Alts [] = Cls []"
| "Alts [r] = r"
| "Alts (r # rs) = Alt r (Alts rs)"

fun in_item :: "citem \<Rightarrow> char \<Rightarrow> bool" where
  "in_item (Ch c) x = (x = c)"
| "in_item (FromTo a b) x = (a \<le> x \<and> x \<le> b)"
| "in_item Digit x = isDigit x"
| "in_item Space x = isSpace x"

definition in_class :: "bool \<Rightarrow> citem list \<Rightarrow> char \<Rightarrow> bool" where
  \<comment> \<open>with the \<open>i\<close> flag a character is in a class when a member of the class has the same
      canonical form, that is when the character or its other case is a member\<close>
  "in_class ic items x =
     (if ic then list_ex (\<lambda>i. in_item i x \<or> in_item i (lowerChar x) \<or> in_item i (upperChar x)) items
      else list_ex (\<lambda>i. in_item i x) items)"

text \<open>
  A cursor is the character before the current position (none at the start of the input)
  and the rest of the input.  \<open>rx ic r c\<close> lists the cursors at which a match of \<open>r\<close>
  starting at \<open>c\<close> can end, in the order in which backtracking tries them: the head of the list
  is the match that JavaScript reports.
\<close>

type_synonym cursor = "char option \<times> string"

definition at_boundary :: "cursor \<Rightarrow> bool" where
  "at_boundary c =
     ((case fst c of None \<Rightarrow> False | Some p \<Rightarrow> isWordChar p)
      \<noteq> (case snd c of [] \<Rightarrow> False | x # _ \<Rightarrow> isWordChar x))"

fun star :: "(cursor \<Rightarrow> cursor list) \<Rightarrow> nat \<Rightarrow> cursor \<Rightarrow> cursor list" where
  "star f 0 c = [c]"
| "star f (Suc n) c =
     concat (map (\<lambda>d. if length (snd d) < length (snd c) then star f n d else []) (f c)) @ [c]"

fun rx :: "bool \<Rightarrow> regex \<Rightarrow> cursor \<Rightarrow> cursor list" where
  "rx ic Empty c = [c]"
| "rx ic (Cls items) (p, []) = []"
| "rx ic (Cls items) (p, x # xs) = (if in_class ic items x then [(Some x, xs)] else [])"
| "rx ic (NCls items) (p, []) = []"
| "rx ic (NCls items) (p, x # xs) = (if in_class ic items x then [] else [(Some x, xs)])"
| "rx ic (Seq r1 r2) c = concat (map (rx ic r2) (rx ic r1 c))"
| "rx ic (Alt r1 r2) c = rx ic r1 c @ rx ic r2 c"
| "rx ic (Star r) c = star (rx ic r) (length (snd c)) c"
| "rx ic WordB c = (if at_boundary c then [c] else [])"
| "rx ic Eos c = (if snd c = [] then [c] else [])"

text \<open>
  \<open>star\<close> runs one more iteration before it tries to stop, and drops an iteration that
  consumed nothing, as the greedy \<open>*\<close> does; every kept iteration shortens the rest of the
  input, so the number of characters left bounds the number of iterations.
\<close>

fun test :: "bool \<Rightarrow> regex \<Rightarrow> char option \<Rightarrow> string \<Rightarrow> bool" where
  \<comment> \<open>\<open>RegExp.prototype.test\<close> of a regex without the \<open>g\<close> flag: a match at some position\<close>
  "test ic r p [] = (rx ic r (p, []) \<noteq> [])"
| "test ic r p (x # xs) = (rx ic r (p, x # xs) \<noteq> [] \<or> test ic r (Some x) xs)"

fun matchAll_from :: "bool \<Rightarrow> regex \<Rightarrow> nat \<Rightarrow> char option \<Rightarrow> string \<Rightarrow> (string \<times> nat) list" where
  "matchAll_from ic r i p [] = (case rx ic r (p, []) of [] \<Rightarrow> [] | _ \<Rightarrow> [([], i)])"
| "matchAll_from ic r i p (x # xs) =
     (case rx ic r (p, x # xs) of
        [] \<Rightarrow> matchAll_from ic r (Suc i) (Some x) xs
      | (p', s') # _ \<Rightarrow>
          if length s' < length (x # xs)
          then (take (length (x # xs) - length s') (x # xs), i)
                 # matchAll_from ic r (i + (length (x # xs) - length s')) p' s'
          else ([], i) # matchAll_from ic r (Suc i) (Some x) xs)"

definition matchAll :: "bool \<Rightarrow> regex \<Rightarrow> string \<Rightarrow> (string \<times> nat) list" where
  \<comment> \<open>\<open>String.prototype.matchAll\<close> of a regex with the \<open>g\<close> flag: the text \<open>m[0]\<close> and the
      index \<open>m.index\<close> of each match, every search resuming where the last match ended
      (one character further after an empty match)\<close>
  "matchAll ic r s = matchAll_from ic r 0 None s"

fun split_from :: "bool \<Rightarrow> regex \<Rightarrow> string \<Rightarrow> char option \<Rightarrow> string \<Rightarrow> string list" where
  "split_from ic r acc p [] = [rev acc]"
| "split_from ic r acc p (x # xs) =
     (case rx ic r (p, x # xs) of
        [] \<Rightarrow> split_from ic r (x # acc) (Some x) xs
      | (p', s') # _ \<Rightarrow>
          if length s' < length (x # xs)
          then rev acc # split_from ic r [] p' s'
          else split_from ic r (x # acc) (Some x) xs)"

definition split_regex :: "bool \<Rightarrow> regex \<Rightarrow> string \<Rightarrow> string list" where
  \<comment> \<open>\<open>String.prototype.split\<close> with a regex separator; \<open>acc\<close> above is the piece since the
      last separator, reversed.  A separator is looked for at every position before the end
      of the input; the two separators of the source never match the empty string\<close>
  "split_regex ic r s =
     (if s = [] then (if rx ic r (None, []) = [] then [[]] else [])
      else split_from ic r [] None s)"

fun startsWith :: "string \<Rightarrow> string \<Rightarrow> bool" where
  "startsWith s [] = True"
| "startsWith [] (c # cs) = False"
| "startsWith (x # xs) (c # cs) = (x = c \<and> startsWith xs cs)"

fun str_includes :: "string \<Rightarrow> string \<Rightarrow> bool" where
  "str_includes [] p = (p = [])"
| "str_includes (x # xs) p = (startsWith (x # xs) p \<or> str_includes xs p)"

section \<open>Sentence segmentation and sentence features\<close>

record Span =
  sentence :: string
  start :: nat
  end_off :: nat

text \<open>
  The field \<open>end\<close> of the source is \<open>end_off\<close> here, and a parameter whose name is
  also the name of a field is shortened (\<open>sent\<close>, \<open>thr\<close>, \<open>feats\<close>).
\<close>

record AISentenceSignal = Span +
  score :: real
  reasons :: "string list"

record AIModelOutput =
  overallAiScore :: real
  threshold :: real
  avgSentenceLength :: real
  sentenceCount :: nat
  features :: AIFeatureVector

definition terminators :: "citem list" where
  "terminators = [Ch CHR ''.'', Ch CHR ''!'', Ch CHR ''?'']"

definition sentence_regex :: regex where
  \<comment> \<open>\<open>/[^.!?]+[.!?]+|\s*[^.!?]+$/g\<close>\<close>
  "sentence_regex =
     Alts [Seqs [Plus (NCls terminators), Plus (Cls terminators)],
           Seqs [Star (Cls [Space]), Plus (NCls terminators), Eos]]"

definition splitSentencesWithOffsets :: "string \<Rightarrow> Span list" where
  "splitSentencesWithOffsets text =
     concat (map (\<lambda>(raw, i).
         let start = i; end = start + length raw; sentence = trim raw
         in if sentence \<noteq> [] then [\<lparr>sentence = sentence, start = start, end_off = end\<rparr>] else [])
       (matchAll False sentence_regex text))"

definition words_separator :: regex where
  \<comment> \<open>\<open>/[^a-z0-9']+/i\<close>\<close>
  "words_separator =
     Plus (NCls [FromTo CHR ''a'' CHR ''z'', FromTo CHR ''0'' CHR ''9'', Ch CHR 0x27])"

definition words :: "string \<Rightarrow> string list" where
  "words s = filter (\<lambda>w. w \<noteq> []) (split_regex True words_separator (toLowerCase s))"

definition repetition :: "string \<Rightarrow> real" where
  "repetition sent =
     (let w = words sent; uniq = set w
      in 1 - real (card uniq) / max (real (length w)) 1)"

definition vocabDiversity :: "string \<Rightarrow> real" where
  "vocabDiversity sent =
     (let w = words sent; uniq = set w
      in real (card uniq) / max (real (length w)) 1)"

definition phrases :: "string list" where
  "phrases =
     [''in today'' @ [CHR 0x27] @ ''s world'',
      ''it is important to note'',
      ''this shows that'',
      ''overall'',
      ''in conclusion'',
      ''a wide range of'',
      ''plays a crucial role'',
      ''significantly'',
      ''various'',
      ''moreover'',
      ''furthermore'']"

definition hasGenericPhrases :: "string \<Rightarrow> bool" where
  "hasGenericPhrases sent = (let s = toLowerCase sent in list_ex (\<lambda>p. str_includes s p) phrases)"

definition transitions :: "string list" where
  "transitions =
     [''moreover'', ''furthermore'', ''additionally'', ''therefore'', ''however'', ''overall'']"

definition transitionDensity :: "string \<Rightarrow> real" where
  "transitionDensity sent =
     (let s = toLowerCase sent;
          count = foldl (\<lambda>count t. if str_includes s t then count + 1 else count) (0::nat) transitions
      in min (real count / 2) 1)"

record SentenceScore =
  s_score :: real
  s_reasons :: "string list"
  s_rep :: real
  s_vdiv :: real
  s_generic :: real
  s_trans :: real
  s_uniformLenSignal :: real

text \<open>
  \<open>SentenceScore\<close> is the object that \<open>aiSentenceScore\<close> returns; its fields carry the
  prefix \<open>s_\<close> here.  The reasons are pushed in the order of the source.
\<close>

definition aiSentenceScore :: "string \<Rightarrow> real \<Rightarrow> SentenceScore" where
  "aiSentenceScore sent avgLen =
     (let len = real (length sent);
          rep = repetition sent;
          vdiv = vocabDiversity sent;
          generic = (if hasGenericPhrases sent then 1 else 0);
          trans = transitionDensity sent;
          lenNorm = clamp01 (\<bar>len - avgLen\<bar> / max avgLen 1);
          uniformLenSignal = 1 - lenNorm;
          raw = 1.25 * rep + 1.10 * (1 - vdiv) + 0.80 * uniformLenSignal
                + 0.90 * generic + 0.70 * trans;
          score = clamp01 (raw / 4.5);
          reasons =
              (if rep > 0.35 then [''Repetitive word patterns''] else [])
            @ (if vdiv < 0.55 then [''Low vocabulary diversity''] else [])
            @ (if uniformLenSignal > 0.8 then [''Sentence length looks very uniform''] else [])
            @ (if generic > 0 then [''Generic filler phrasing''] else [])
            @ (if trans > 0.5 then [''Heavy transition-word use''] else [])
      in \<lparr>s_score = score, s_reasons = reasons, s_rep = rep, s_vdiv = vdiv,
          s_generic = generic, s_trans = trans, s_uniformLenSignal = uniformLenSignal\<rparr>)"

section \<open>Document analysis\<close>

record Analysis =
  aiSentenceSignals :: "AISentenceSignal list"
  aiModel :: AIModelOutput

text \<open>
  An element of \<open>scored\<close> is the object \<open>{...s, ...r}\<close>: the span \<open>s\<close> together with the
  result \<open>r\<close> of \<open>aiSentenceScore\<close>, a pair here.  \<open>reduce\<close> is \<open>foldl\<close>.
\<close>

definition analyzeTextForAI :: "string \<Rightarrow> real \<Rightarrow> Analysis" where
  "analyzeTextForAI text thr =
     (let sents = splitSentencesWithOffsets text;
          avgLen = foldl (\<lambda>a s. a + real (length (sentence s))) 0 sents
                     / max (real (length sents)) 1;
          scored = map (\<lambda>s. (s, aiSentenceScore (sentence s) avgLen)) sents;
          aiSentenceSignals =
            map (\<lambda>x. \<lparr>sentence = sentence (fst x), start = start (fst x),
                       end_off = end_off (fst x), score = s_score (snd x),
                       reasons = (if s_reasons (snd x) \<noteq> [] then s_reasons (snd x)
                                  else [''Pattern-based AI signal''])\<rparr>)
              (filter (\<lambda>x. s_score (snd x) \<ge> thr) scored);
          avgScore = foldl (\<lambda>a s. a + s_score (snd s)) 0 scored / max (real (length scored)) 1;
          flaggedRatio = real (length aiSentenceSignals) / max (real (length scored)) 1;
          overallAiScore = clamp01 (0.65 * avgScore + 0.35 * flaggedRatio);
          avgRepetition = foldl (\<lambda>a s. a + s_rep (snd s)) 0 scored / max (real (length scored)) 1;
          avgVocabDiversity =
            foldl (\<lambda>a s. a + s_vdiv (snd s)) 0 scored / max (real (length scored)) 1;
          genericRate =
            foldl (\<lambda>a s. a + (if s_generic (snd s) \<noteq> 0 then 1 else 0)) 0 scored
              / max (real (length scored)) 1;
          transitionRate =
            foldl (\<lambda>a s. a + s_trans (snd s)) 0 scored / max (real (length scored)) 1;
          uniformity' =
            foldl (\<lambda>a s. a + s_uniformLenSignal (snd s)) 0 scored / max (real (length scored)) 1
      in \<lparr>aiSentenceSignals = aiSentenceSignals,
          aiModel = \<lparr>overallAiScore = overallAiScore,
                     threshold = thr,
                     avgSentenceLength = avgLen,
                     sentenceCount = length scored,
                     features = \<lparr>avgRepetition = clamp01 avgRepetition,
                                  avgVocabDiversity = clamp01 avgVocabDiversity,
                                  genericRate = clamp01 genericRate,
                                  transitionRate = clamp01 transitionRate,
                                  uniformity' = clamp01 uniformity'\<rparr>\<rparr>\<rparr>)"

section \<open>Division by zero\<close>

text \<open>
  A division by zero raises nothing in JavaScript: it yields NaN or an infinity, neither of
  which is a real.  To make it visible the functions of \<open>src/lib/aiFeatures.ts\<close> that
  divide are written a second time, with every \<open>/\<close> of the source as a checked division
  whose result is \<open>None\<close> when the divisor is 0; everything else is as above.
\<close>

definition checked_div :: "real \<Rightarrow> real \<Rightarrow> real option" where
  "checked_div x y = (if y = 0 then None else Some (x / y))"

definition repetition_checked :: "string \<Rightarrow> real option" where
  "repetition_checked sent =
     (let w = words sent; uniq = set w
      in do { q \<leftarrow> checked_div (real (card uniq)) (max (real (length w)) 1);
              Some (1 - q) })"

definition vocabDiversity_checked :: "string \<Rightarrow> real option" where
  "vocabDiversity_checked sent =
     (let w = words sent; uniq = set w
      in checked_div (real (card uniq)) (max (real (length w)) 1))"

definition transitionDensity_checked :: "string \<Rightarrow> real option" where
  "transitionDensity_checked sent =
     (let s = toLowerCase sent;
          count = foldl (\<lambda>count t. if str_includes s t then count + 1 else count) (0::nat) transitions
      in do { q \<leftarrow> checked_div (real count) 2;
              Some (min q 1) })"

definition aiSentenceScore_checked :: "string \<Rightarrow> real \<Rightarrow> SentenceScore option" where
  "aiSentenceScore_checked sent avgLen =
     do { let len = real (length sent);
          rep \<leftarrow> repetition_checked sent;
          vdiv \<leftarrow> vocabDiversity_checked sent;
          let generic = (if hasGenericPhrases sent then 1 else 0);
          trans \<leftarrow> transitionDensity_checked sent;
          q \<leftarrow> checked_div \<bar>len - avgLen\<bar> (max avgLen 1);
          let lenNorm = clamp01 q;
          let uniformLenSignal = 1 - lenNorm;
          let raw = 1.25 * rep + 1.10 * (1 - vdiv) + 0.80 * uniformLenSignal
                    + 0.90 * generic + 0.70 * trans;
          z \<leftarrow> checked_div raw 4.5;
          let score = clamp01 z;
          let reasons =
              (if rep > 0.35 then [''Repetitive word patterns''] else [])
            @ (if vdiv < 0.55 then [''Low vocabulary diversity''] else [])
            @ (if uniformLenSignal > 0.8 then [''Sentence length looks very uniform''] else [])
            @ (if generic > 0 then [''Generic filler phrasing''] else [])
            @ (if trans > 0.5 then [''Heavy transition-word use''] else []);
          Some \<lparr>s_score = score, s_reasons = reasons, s_rep = rep, s_vdiv = vdiv,
                s_generic = generic, s_trans = trans, s_uniformLenSignal = uniformLenSignal\<rparr> }"

text \<open>
  \<open>those\<close> gives the list of the results when every sentence has one, and \<open>None\<close> when the
  scoring of some sentence divided by zero.
\<close>

definition analyzeTextForAI_checked :: "string \<Rightarrow> real \<Rightarrow> Analysis option" where
  "analyzeTextForAI_checked text thr =
     do { let sents = splitSentencesWithOffsets text;
          avgLen \<leftarrow> checked_div (foldl (\<lambda>a s. a + real (length (sentence s))) 0 sents)
                      (max (real (length sents)) 1);
          scored \<leftarrow> those (map (\<lambda>s. map_option (\<lambda>r. (s, r))
                                       (aiSentenceScore_checked (sentence s) avgLen)) sents);
          let aiSentenceSignals =
            map (\<lambda>x. \<lparr>sentence = sentence (fst x), start = start (fst x),
                       end_off = end_off (fst x), score = s_score (snd x),
                       reasons = (if s_reasons (snd x) \<noteq> [] then s_reasons (snd x)
                                  else [''Pattern-based AI signal''])\<rparr>)
              (filter (\<lambda>x. s_score (snd x) \<ge> thr) scored);
          avgScore \<leftarrow> checked_div (foldl (\<lambda>a s. a + s_score (snd s)) 0 scored)
                        (max (real (length scored)) 1);
          flaggedRatio \<leftarrow> checked_div (real (length aiSentenceSignals))
                            (max (real (length scored)) 1);
          let overallAiScore = clamp01 (0.65 * avgScore + 0.35 * flaggedRatio);
          avgRepetition \<leftarrow> checked_div (foldl (\<lambda>a s. a + s_rep (snd s)) 0 scored)
                             (max (real (length scored)) 1);
          avgVocabDiversity \<leftarrow> checked_div (foldl (\<lambda>a s. a + s_vdiv (snd s)) 0 scored)
                                 (max (real (length scored)) 1);
          genericRate \<leftarrow>
            checked_div (foldl (\<lambda>a s. a + (if s_generic (snd s) \<noteq> 0 then 1 else 0)) 0 scored)
              (max (real (length scored)) 1);
          transitionRate \<leftarrow> checked_div (foldl (\<lambda>a s. a + s_trans (snd s)) 0 scored)
                              (max (real (length scored)) 1);
          uniformity' \<leftarrow> checked_div (foldl (\<lambda>a s. a + s_uniformLenSignal (snd s)) 0 scored)
                           (max (real (length scored)) 1);
          Some \<lparr>aiSentenceSignals = aiSentenceSignals,
                aiModel = \<lparr>overallAiScore = overallAiScore,
                           threshold = thr,
                           avgSentenceLength = avgLen,
                           sentenceCount = length scored,
                           features = \<lparr>avgRepetition = clamp01 avgRepetition,
                                        avgVocabDiversity = clamp01 avgVocabDiversity,
                                        genericRate = clamp01 genericRate,
                                        transitionRate = clamp01 transitionRate,
                                        uniformity' = clamp01 uniformity'\<rparr>\<rparr>\<rparr> }"

section \<open>The calibration classifier\<close>

definition distance :: "AIFeatureVector \<Rightarrow> AIFeatureVector \<Rightarrow> real" where
  "distance a b =
     (let d = (avgRepetition a - avgRepetition b)\<^sup>2
            + (avgVocabDiversity a - avgVocabDiversity b)\<^sup>2
            + (genericRate a - genericRate b)\<^sup>2
            + (transitionRate a - transitionRate b)\<^sup>2
            + (uniformity' a - uniformity' b)\<^sup>2
      in sqrt d)"

datatype label = Human | Ai | Uncertain

record Classification =
  label :: label
  confidence :: real
  dHuman :: "real option"
  dAI :: "real option"
  note_msg :: string

definition classifyWithCalibration ::
  "AIFeatureVector \<Rightarrow> AIFeatureVector option \<Rightarrow> AIFeatureVector option \<Rightarrow> Classification" where
  "classifyWithCalibration feats human ai =
     (case (human, ai) of
        (Some h, Some a) \<Rightarrow>
          (let dH = distance feats h;
               dA = distance feats a;
               margin = dA - dH;
               conf = clamp01 (\<bar>margin\<bar> / 0.25)
           in if \<bar>margin\<bar> < 0.06
              then \<lparr>label = Uncertain, confidence = conf, dHuman = Some dH, dAI = Some dA,
                    note_msg = ''Close to both profiles (uncertain).''\<rparr>
              else \<lparr>label = (if margin > 0 then Human else Ai), confidence = conf,
                    dHuman = Some dH, dAI = Some dA,
                    note_msg = ''Closer to one reference profile (not proof).''\<rparr>)
      | _ \<Rightarrow> \<lparr>label = Uncertain, confidence = 0, dHuman = None, dAI = None,
               note_msg = ''Missing calibration profiles. Visit /calibrate.''\<rparr>)"

text \<open>
  The margin \<open>dAI - dHuman\<close> of a classification that has both distances, and the exchange
  of the two decided labels; both are used to state properties of the classifier.
\<close>

definition margin_of :: "Classification \<Rightarrow> real option" where
  "margin_of c = (case (dAI c, dHuman c) of (Some a, Some h) \<Rightarrow> Some (a - h) | _ \<Rightarrow> None)"

fun swap_label :: "label \<Rightarrow> label" where
  "swap_label Human = Ai"
| "swap_label Ai = Human"
| "swap_label Uncertain = Uncertain"

section \<open>The citation detector\<close>

datatype issue_kind = missing_citation | needs_quote

record CitationIssue =
  type :: issue_kind
  message :: string
  suggestion :: "string option"

definition worksCited_regex :: regex where
  \<comment> \<open>\<open>/\b(works cited|references|bibliography)\b/i\<close>\<close>
  "worksCited_regex =
     Seqs [WordB, Alts [Lit ''works cited'', Lit ''references'', Lit ''bibliography''], WordB]"

definition hasWorksCitedSection :: "string \<Rightarrow> bool" where
  "hasWorksCitedSection text = test True worksCited_regex None text"

definition inlineCitation_regex :: regex where
  \<comment> \<open>\<open>/\([^)]+\d{2,4}[^)]*\)|\([A-Z][a-zA-Z-]+[^)]*\)|\[\d+\]/\<close>\<close>
  "inlineCitation_regex =
     Alts [Seqs [Lit ''('', Plus (NCls [Ch CHR '')'']), Between 2 4 (Cls [Digit]),
                 Star (NCls [Ch CHR '')'']), Lit '')''],
           Seqs [Lit ''('', Cls [FromTo CHR ''A'' CHR ''Z''],
                 Plus (Cls [FromTo CHR ''a'' CHR ''z'', FromTo CHR ''A'' CHR ''Z'', Ch CHR ''-'']),
                 Star (NCls [Ch CHR '')'']), Lit '')''],
           Seqs [Lit ''['', Plus (Cls [Digit]), Lit '']'']]"

definition hasInlineCitation :: "string \<Rightarrow> bool" where
  "hasInlineCitation line = test False inlineCitation_regex None line"

definition lineBreak_regex :: regex where
  \<comment> \<open>\<open>/\r?\n/\<close>\<close>
  "lineBreak_regex = Seqs [Opt (Lit [CHR 0x0D]), Lit [CHR 0x0A]]"

definition splitLines :: "string \<Rightarrow> string list" where
  "splitLines text = filter (\<lambda>l. l \<noteq> []) (map trim (split_regex False lineBreak_regex text))"

definition year_regex :: regex where
  \<comment> \<open>\<open>/\b(19|20)\d{2}\b/\<close>\<close>
  "year_regex = Seqs [WordB, Alts [Lit ''19'', Lit ''20''], Between 2 2 (Cls [Digit]), WordB]"

definition number_regex :: regex where
  \<comment> \<open>\<open>/\b\d+(\.\d+)?%?\b/\<close>\<close>
  "number_regex =
     Seqs [WordB, Plus (Cls [Digit]), Opt (Seqs [Lit ''.'', Plus (Cls [Digit])]),
           Opt (Lit ''%''), WordB]"

definition unit_regex :: regex where
  \<comment> \<open>\<open>/\b(million|billion|percent|%)\b/i\<close>\<close>
  "unit_regex =
     Seqs [WordB, Alts [Lit ''million'', Lit ''billion'', Lit ''percent'', Lit ''%''], WordB]"

definition quote_regex :: regex where
  \<comment> \<open>a double quote, \<open>[^"]{10,}\<close>, a double quote\<close>
  "quote_regex = Seqs [Lit [CHR 0x22], AtLeast 10 (NCls [Ch CHR 0x22]), Lit [CHR 0x22]]"

text \<open>The constants \<open>hasYear\<close> and \<open>hasNumber\<close> of the loop body, as functions of the line.\<close>

definition hasYear :: "string \<Rightarrow> bool" where
  "hasYear line = test False year_regex None line"

definition hasNumber :: "string \<Rightarrow> bool" where
  "hasNumber line = (test False number_regex None line \<or> test True unit_regex None line)"

definition noWorksCited_issue :: CitationIssue where
  "noWorksCited_issue =
     \<lparr>type = missing_citation,
      message = ''No Works Cited / References section detected.'',
      suggestion = Some ''Add a Works Cited (MLA) or References (APA) section.''\<rparr>"

definition statistic_issue :: CitationIssue where
  "statistic_issue =
     \<lparr>type = missing_citation,
      message = ''A statistic or year appears without a citation.'',
      suggestion = Some ''Add an in-text citation after this sentence.''\<rparr>"

definition quote_issue :: CitationIssue where
  "quote_issue =
     \<lparr>type = needs_quote,
      message = ''A direct quote appears without a citation.'',
      suggestion = Some ''Add an in-text citation immediately after the quote.''\<rparr>"

fun findIndex :: "('a \<Rightarrow> bool) \<Rightarrow> 'a list \<Rightarrow> int" where
  \<comment> \<open>\<open>Array.prototype.findIndex\<close>: the first index whose element passes, or -1\<close>
  "findIndex P [] = -1"
| "findIndex P (x # xs) = (if P x then 0 else (let i = findIndex P xs in if i < 0 then -1 else i + 1))"

definition line_issues :: "CitationIssue list \<Rightarrow> string \<Rightarrow> CitationIssue list" where
  \<comment> \<open>one round of the loop over the lines: the array \<open>issues\<close> before and after\<close>
  "line_issues issues line =
     (let issues1 =
            (if (hasYear line \<or> hasNumber line) \<and> \<not> hasInlineCitation line \<and> length line \<ge> 10
             then issues @ [statistic_issue] else issues)
      in if test False quote_regex None line \<and> \<not> hasInlineCitation line
         then issues1 @ [quote_issue] else issues1)"

definition findCitationIssues :: "string \<Rightarrow> CitationIssue list" where
  "findCitationIssues text =
     (let lines = splitLines text;
          hasWC = hasWorksCitedSection text;
          issues0 = (if \<not> hasWC then [noWorksCited_issue] else []);
          issues = foldl line_issues issues0 lines
      in map snd (filter (\<lambda>(i, v). findIndex (\<lambda>t. message t = message v) issues = int i)
                     (enumerate 0 issues)))"

section \<open>The matcher\<close>

text \<open>
  The bound on the iterations of \<open>star\<close> is never reached: more fuel than characters left
  gives the same matches.
\<close>

lemma star_fuel:
  "length (snd c) \<le> n \<Longrightarrow> star f n c = star f (length (snd c)) c"
proof (induction n arbitrary: c rule: less_induct)
  case (less n)
  show ?case
  proof (cases n)
    case 0
    with less.prems show ?thesis by simp
  next
    case (Suc m)
    show ?thesis
    proof (cases "length (snd c)")
      case 0
      then show ?thesis by (simp add: Suc)
    next
      case (Suc k)
      with less.prems \<open>n = Suc m\<close> have km: "k \<le> m" by simp
      have step: "(if length (snd d) < Suc k then star f m d else [])
                = (if length (snd d) < Suc k then star f k d else [])" for d
      proof (cases "length (snd d) < Suc k")
        case True
        then have dk: "length (snd d) \<le> k" by simp
        with km have dm: "length (snd d) \<le> m" by simp
        have "star f m d = star f (length (snd d)) d"
          using less.IH [of m d] dm \<open>n = Suc m\<close> by simp
        moreover have "star f k d = star f (length (snd d)) d"
          using less.IH [of k d] dk km \<open>n = Suc m\<close> by simp
        ultimately show ?thesis by simp
      next
        case False
        then show ?thesis by simp
      qed
      show ?thesis
        unfolding \<open>n = Suc m\<close> Suc star.simps step ..
    qed
  qed
qed

section \<open>Properties of the document analysis\<close>

lemma clamp01_range: "0 \<le> clamp01 x \<and> clamp01 x \<le> 1"
  by (simp add: clamp01_def)

lemma divisor_guarded: "1 \<le> max (real n) 1"
  by simp

lemma foldl_count_filter:
  "foldl (\<lambda>count t. if P t then count + 1 else count) (n::nat) ts = n + length (filter P ts)"
  by (induction ts arbitrary: n) simp_all

lemma transitionDensity_count:
  "transitionDensity sent =
     min (real (length (filter (str_includes (toLowerCase sent)) transitions)) / 2) 1"
  by (simp add: transitionDensity_def Let_def foldl_count_filter)

text \<open>
  C1. For every text and every threshold, the five components of the feature vector
  returned by \<open>analyzeTextForAI\<close> and the \<open>overallAiScore\<close> lie in the closed interval
  from 0 to 1.
\<close>

theorem analyze_bounded:
  "0 \<le> avgRepetition (features (aiModel (analyzeTextForAI text thr)))
   \<and> avgRepetition (features (aiModel (analyzeTextForAI text thr))) \<le> 1
   \<and> 0 \<le> avgVocabDiversity (features (aiModel (analyzeTextForAI text thr)))
   \<and> avgVocabDiversity (features (aiModel (analyzeTextForAI text thr))) \<le> 1
   \<and> 0 \<le> genericRate (features (aiModel (analyzeTextForAI text thr)))
   \<and> genericRate (features (aiModel (analyzeTextForAI text thr))) \<le> 1
   \<and> 0 \<le> transitionRate (features (aiModel (analyzeTextForAI text thr)))
   \<and> transitionRate (features (aiModel (analyzeTextForAI text thr))) \<le> 1
   \<and> 0 \<le> uniformity' (features (aiModel (analyzeTextForAI text thr)))
   \<and> uniformity' (features (aiModel (analyzeTextForAI text thr))) \<le> 1
   \<and> 0 \<le> overallAiScore (aiModel (analyzeTextForAI text thr))
   \<and> overallAiScore (aiModel (analyzeTextForAI text thr)) \<le> 1"
  by (simp add: analyzeTextForAI_def Let_def clamp01_range)

text \<open>
  C2, as amended. For every sentence and every average length, the score of
  \<open>aiSentenceScore\<close> is \<open>clamp01\<close> of the weighted sum
  \<open>1.25 rep + 1.10 (1 - vdiv) + 0.80 uniformLenSignal + 0.90 generic + 0.70 trans\<close>
  divided by 4.5, where the five sub-features are those of the feature extractor:
  \<open>rep = 1 - unique / max(tokens, 1)\<close>, \<open>vdiv = unique / max(tokens, 1)\<close>, \<open>generic\<close> is 1
  when a boilerplate phrase occurs and 0 otherwise, \<open>trans\<close> is the number of distinct
  transition words that occur, halved and capped at 1, and \<open>uniformLenSignal\<close> is
  \<open>1 - clamp01(|len - avgLen| / max(avgLen, 1))\<close>.  The divisor 4.5 is a fixed constant; the
  five weights add up to 4.75.
\<close>

theorem sentence_score_formula:
  "s_score (aiSentenceScore sent avgLen) =
     clamp01 ((1.25 * s_rep (aiSentenceScore sent avgLen)
               + 1.10 * (1 - s_vdiv (aiSentenceScore sent avgLen))
               + 0.80 * s_uniformLenSignal (aiSentenceScore sent avgLen)
               + 0.90 * s_generic (aiSentenceScore sent avgLen)
               + 0.70 * s_trans (aiSentenceScore sent avgLen)) / 4.5)
   \<and> s_rep (aiSentenceScore sent avgLen)
       = 1 - real (card (set (words sent))) / max (real (length (words sent))) 1
   \<and> s_vdiv (aiSentenceScore sent avgLen)
       = real (card (set (words sent))) / max (real (length (words sent))) 1
   \<and> s_generic (aiSentenceScore sent avgLen)
       = (if list_ex (str_includes (toLowerCase sent)) phrases then 1 else 0)
   \<and> s_trans (aiSentenceScore sent avgLen)
       = min (real (length (filter (str_includes (toLowerCase sent)) transitions)) / 2) 1
   \<and> s_uniformLenSignal (aiSentenceScore sent avgLen)
       = 1 - clamp01 (\<bar>real (length sent) - avgLen\<bar> / max avgLen 1)
   \<and> (1.25 + 1.10 + 0.80 + 0.90 + 0.70 :: real) = 4.75"
proof -
  let ?r = "aiSentenceScore sent avgLen"
  have score: "s_score ?r =
      clamp01 ((1.25 * s_rep ?r + 1.10 * (1 - s_vdiv ?r) + 0.80 * s_uniformLenSignal ?r
                + 0.90 * s_generic ?r + 0.70 * s_trans ?r) / 4.5)"
    by (simp only: aiSentenceScore_def Let_def SentenceScore.select_convs)
  have rep: "s_rep ?r = 1 - real (card (set (words sent))) / max (real (length (words sent))) 1"
    by (simp only: aiSentenceScore_def repetition_def Let_def SentenceScore.select_convs)
  have vdiv: "s_vdiv ?r = real (card (set (words sent))) / max (real (length (words sent))) 1"
    by (simp only: aiSentenceScore_def vocabDiversity_def Let_def SentenceScore.select_convs)
  have generic: "s_generic ?r = (if list_ex (str_includes (toLowerCase sent)) phrases then 1 else 0)"
    by (simp only: aiSentenceScore_def hasGenericPhrases_def Let_def SentenceScore.select_convs)
  have trans: "s_trans ?r =
      min (real (length (filter (str_includes (toLowerCase sent)) transitions)) / 2) 1"
    by (simp only: aiSentenceScore_def transitionDensity_count Let_def SentenceScore.select_convs)
  have unif: "s_uniformLenSignal ?r = 1 - clamp01 (\<bar>real (length sent) - avgLen\<bar> / max avgLen 1)"
    by (simp only: aiSentenceScore_def Let_def SentenceScore.select_convs)
  have weights: "(1.25 + 1.10 + 0.80 + 0.90 + 0.70 :: real) = 4.75"
    by simp
  from score rep vdiv generic trans unif weights show ?thesis
    by (intro conjI)
qed

text \<open>
  The claim C2 as first stated takes 4.5 for the sum of the weights.  On the sentence
  \<open>a.\<close> in a document of average length 2 only the length term is not zero: the code
  returns \<open>0.8 / 4.5\<close>, and dividing by the sum of the weights would give \<open>0.8 / 4.75\<close>.
\<close>

theorem sentence_score_weights_counterexample:
  "s_score (aiSentenceScore ''a.'' 2) = 8 / 45
   \<and> clamp01 ((1.25 * s_rep (aiSentenceScore ''a.'' 2)
               + 1.10 * (1 - s_vdiv (aiSentenceScore ''a.'' 2))
               + 0.80 * s_uniformLenSignal (aiSentenceScore ''a.'' 2)
               + 0.90 * s_generic (aiSentenceScore ''a.'' 2)
               + 0.70 * s_trans (aiSentenceScore ''a.'' 2))
              / (1.25 + 1.10 + 0.80 + 0.90 + 0.70)) = 16 / 95
   \<and> (1.25 + 1.10 + 0.80 + 0.90 + 0.70 :: real) \<noteq> 4.5"
proof -
  have "aiSentenceScore ''a.'' 2 =
          \<lparr>s_score = 8 / 45, s_reasons = [''Sentence length looks very uniform''],
           s_rep = 0, s_vdiv = 1, s_generic = 0, s_trans = 0, s_uniformLenSignal = 1\<rparr>"
    by code_simp
  then show ?thesis by (simp add: clamp01_def)
qed

lemma checked_div_guarded: "checked_div x (max y 1) = Some (x / max y 1)"
  by (simp add: checked_div_def max_def)

lemma checked_div_unguarded: "checked_div x (real (length ([] :: 'a list))) = None"
  by (simp add: checked_div_def)

lemma repetition_checked_total: "repetition_checked sent = Some (repetition sent)"
  by (simp add: repetition_checked_def repetition_def Let_def checked_div_guarded)

lemma vocabDiversity_checked_total: "vocabDiversity_checked sent = Some (vocabDiversity sent)"
  by (simp add: vocabDiversity_checked_def vocabDiversity_def Let_def checked_div_guarded)

lemma transitionDensity_checked_total:
  "transitionDensity_checked sent = Some (transitionDensity sent)"
  by (simp add: transitionDensity_checked_def transitionDensity_def Let_def checked_div_def)

lemma aiSentenceScore_checked_total:
  "aiSentenceScore_checked sent avgLen = Some (aiSentenceScore sent avgLen)"
  by (simp add: aiSentenceScore_checked_def aiSentenceScore_def Let_def
      repetition_checked_total vocabDiversity_checked_total transitionDensity_checked_total
      checked_div_guarded)
    (simp add: checked_div_def)

lemma those_map_Some: "those (map (\<lambda>x. Some (f x)) xs) = Some (map f xs)"
  by (induction xs) simp_all

lemma analyzeTextForAI_checked_total:
  "analyzeTextForAI_checked text thr = Some (analyzeTextForAI text thr)"
  by (simp add: analyzeTextForAI_checked_def analyzeTextForAI_def Let_def
      aiSentenceScore_checked_total those_map_Some checked_div_guarded)

text \<open>
  C6. For every text and threshold the checked analysis returns a result, the one of
  \<open>analyzeTextForAI\<close>: no division of the aggregation or of the sentence scoring has a zero
  divisor.  On the empty string, and on every text that segments into zero sentences, the
  result has \<open>sentenceCount = 0\<close>, \<open>overallAiScore = 0\<close>, the five feature components 0,
  average sentence length 0 and no flagged sentence.
\<close>

theorem analyze_no_sentences:
  "analyzeTextForAI_checked text thr = Some (analyzeTextForAI text thr)
   \<and> (text = [] \<or> splitSentencesWithOffsets text = [] \<longrightarrow>
        analyzeTextForAI_checked text thr
          = Some \<lparr>aiSentenceSignals = [],
                  aiModel = \<lparr>overallAiScore = 0, threshold = thr, avgSentenceLength = 0,
                             sentenceCount = 0,
                             features = \<lparr>avgRepetition = 0, avgVocabDiversity = 0,
                                          genericRate = 0, transitionRate = 0,
                                          uniformity' = 0\<rparr>\<rparr>\<rparr>
        \<and> sentenceCount (aiModel (analyzeTextForAI text thr)) = 0
        \<and> overallAiScore (aiModel (analyzeTextForAI text thr)) = 0
        \<and> features (aiModel (analyzeTextForAI text thr))
            = \<lparr>avgRepetition = 0, avgVocabDiversity = 0, genericRate = 0, transitionRate = 0,
               uniformity' = 0\<rparr>
        \<and> aiSentenceSignals (analyzeTextForAI text thr) = []
        \<and> avgSentenceLength (aiModel (analyzeTextForAI text thr)) = 0
        \<and> max (real (sentenceCount (aiModel (analyzeTextForAI text thr)))) 1 = 1)"
proof (intro conjI impI)
  show "analyzeTextForAI_checked text thr = Some (analyzeTextForAI text thr)"
    by (rule analyzeTextForAI_checked_total)
next
  assume h: "text = [] \<or> splitSentencesWithOffsets text = []"
  have "splitSentencesWithOffsets [] = []"
    by (simp add: splitSentencesWithOffsets_def matchAll_def sentence_regex_def Plus_def)
  with h have none: "splitSentencesWithOffsets text = []" by auto
  then have val: "analyzeTextForAI text thr
          = \<lparr>aiSentenceSignals = [],
             aiModel = \<lparr>overallAiScore = 0, threshold = thr, avgSentenceLength = 0,
                        sentenceCount = 0,
                        features = \<lparr>avgRepetition = 0, avgVocabDiversity = 0,
                                     genericRate = 0, transitionRate = 0,
                                     uniformity' = 0\<rparr>\<rparr>\<rparr>"
    by (simp add: analyzeTextForAI_def clamp01_def)
  show "analyzeTextForAI_checked text thr
          = Some \<lparr>aiSentenceSignals = [],
                  aiModel = \<lparr>overallAiScore = 0, threshold = thr, avgSentenceLength = 0,
                             sentenceCount = 0,
                             features = \<lparr>avgRepetition = 0, avgVocabDiversity = 0,
                                          genericRate = 0, transitionRate = 0,
                                          uniformity' = 0\<rparr>\<rparr>\<rparr>"
    unfolding analyzeTextForAI_checked_total val ..
  show "sentenceCount (aiModel (analyzeTextForAI text thr)) = 0"
    and "overallAiScore (aiModel (analyzeTextForAI text thr)) = 0"
    and "features (aiModel (analyzeTextForAI text thr))
            = \<lparr>avgRepetition = 0, avgVocabDiversity = 0, genericRate = 0, transitionRate = 0,
               uniformity' = 0\<rparr>"
    and "aiSentenceSignals (analyzeTextForAI text thr) = []"
    and "avgSentenceLength (aiModel (analyzeTextForAI text thr)) = 0"
    and "max (real (sentenceCount (aiModel (analyzeTextForAI text thr)))) 1 = 1"
    unfolding val by simp_all
qed

theorem analyze_no_sentences_witness:
  "analyzeTextForAI_checked '''' 0.35
     = Some \<lparr>aiSentenceSignals = [],
             aiModel = \<lparr>overallAiScore = 0, threshold = 0.35, avgSentenceLength = 0,
                        sentenceCount = 0,
                        features = \<lparr>avgRepetition = 0, avgVocabDiversity = 0,
                                     genericRate = 0, transitionRate = 0,
                                     uniformity' = 0\<rparr>\<rparr>\<rparr>
   \<and> splitSentencesWithOffsets ''..! '' = []
   \<and> analyzeTextForAI_checked ''..! '' 0.35
     = Some \<lparr>aiSentenceSignals = [],
             aiModel = \<lparr>overallAiScore = 0, threshold = 0.35, avgSentenceLength = 0,
                        sentenceCount = 0,
                        features = \<lparr>avgRepetition = 0, avgVocabDiversity = 0,
                                     genericRate = 0, transitionRate = 0,
                                     uniformity' = 0\<rparr>\<rparr>\<rparr>
   \<and> sentenceCount (aiModel (analyzeTextForAI '''' 0.35)) = 0
   \<and> aiSentenceSignals (analyzeTextForAI ''..! '' 0.35) = []"
proof -
  have e: "'''' = ([] :: string) \<or> splitSentencesWithOffsets '''' = []" by simp
  have s: "splitSentencesWithOffsets ''..! '' = []" by code_simp
  then have d: "''..! '' = [] \<or> splitSentencesWithOffsets ''..! '' = []" by (rule disjI2)
  note a = analyze_no_sentences [of "''''" "0.35", THEN conjunct2, rule_format, OF e]
  note b = analyze_no_sentences [of "''..! ''" "0.35", THEN conjunct2, rule_format, OF d]
  from a b s show ?thesis by blast
qed

text \<open>
  C7. For every text and thresholds \<open>t1 \<le> t2\<close>, the sentences flagged at \<open>t2\<close> are no more
  than those flagged at \<open>t1\<close> (so the flagged ratio does not increase): they are the
  sentences flagged at \<open>t1\<close> whose score is at least \<open>t2\<close>, with the same span, score and
  reasons; the feature vector, the average sentence length and the sentence count are
  the same for both thresholds; and one list of sentence scores, the same for every
  threshold, gives the flagged scores at each threshold by filtering.
\<close>

theorem flagging_monotone:
  assumes "t1 \<le> t2"
  shows "length (aiSentenceSignals (analyzeTextForAI text t2))
           \<le> length (aiSentenceSignals (analyzeTextForAI text t1))
       \<and> real (length (aiSentenceSignals (analyzeTextForAI text t2)))
             / max (real (sentenceCount (aiModel (analyzeTextForAI text t2)))) 1
           \<le> real (length (aiSentenceSignals (analyzeTextForAI text t1)))
             / max (real (sentenceCount (aiModel (analyzeTextForAI text t1)))) 1
       \<and> aiSentenceSignals (analyzeTextForAI text t2)
           = filter (\<lambda>x. score x \<ge> t2) (aiSentenceSignals (analyzeTextForAI text t1))
       \<and> features (aiModel (analyzeTextForAI text t2)) = features (aiModel (analyzeTextForAI text t1))
       \<and> avgSentenceLength (aiModel (analyzeTextForAI text t2))
           = avgSentenceLength (aiModel (analyzeTextForAI text t1))
       \<and> sentenceCount (aiModel (analyzeTextForAI text t2))
           = sentenceCount (aiModel (analyzeTextForAI text t1))
       \<and> (\<exists>scores. \<forall>t. map score (aiSentenceSignals (analyzeTextForAI text t))
                            = filter (\<lambda>s. t \<le> s) scores)"
proof -
  have both: "(t1 \<le> v \<and> t2 \<le> v) = (t2 \<le> v)" for v
    using assms by auto
  have eq: "aiSentenceSignals (analyzeTextForAI text t2)
              = filter (\<lambda>x. score x \<ge> t2) (aiSentenceSignals (analyzeTextForAI text t1))"
    by (simp add: analyzeTextForAI_def Let_def filter_map o_def both)
  have len: "length (aiSentenceSignals (analyzeTextForAI text t2))
               \<le> length (aiSentenceSignals (analyzeTextForAI text t1))"
    unfolding eq by (rule length_filter_le)
  have same: "features (aiModel (analyzeTextForAI text t2)) = features (aiModel (analyzeTextForAI text t1))
      \<and> avgSentenceLength (aiModel (analyzeTextForAI text t2))
           = avgSentenceLength (aiModel (analyzeTextForAI text t1))
      \<and> sentenceCount (aiModel (analyzeTextForAI text t2))
           = sentenceCount (aiModel (analyzeTextForAI text t1))"
    by (simp add: analyzeTextForAI_def Let_def)
  from same have cnt: "sentenceCount (aiModel (analyzeTextForAI text t2))
           = sentenceCount (aiModel (analyzeTextForAI text t1))" by simp
  have ratio: "real (length (aiSentenceSignals (analyzeTextForAI text t2)))
             / max (real (sentenceCount (aiModel (analyzeTextForAI text t2)))) 1
           \<le> real (length (aiSentenceSignals (analyzeTextForAI text t1)))
             / max (real (sentenceCount (aiModel (analyzeTextForAI text t1)))) 1"
    unfolding cnt using len by (intro divide_right_mono) simp_all
  have "\<forall>t. map score (aiSentenceSignals (analyzeTextForAI text t))
          = filter (\<lambda>s. t \<le> s)
              (map (\<lambda>s. s_score (aiSentenceScore (sentence s)
                      (avgSentenceLength (aiModel (analyzeTextForAI text t1)))))
                 (splitSentencesWithOffsets text))"
    by (simp add: analyzeTextForAI_def Let_def filter_map o_def)
  then have scores: "\<exists>scores. \<forall>t. map score (aiSentenceSignals (analyzeTextForAI text t))
                            = filter (\<lambda>s. t \<le> s) scores"
    by (rule exI)
  from len ratio eq same scores show ?thesis by (intro conjI) simp_all
qed

theorem flagging_monotone_witness:
  "(0.1::real) \<le> 0.35
   \<and> length (aiSentenceSignals (analyzeTextForAI ''Hi. Go now'' 0.35)) = 0
   \<and> length (aiSentenceSignals (analyzeTextForAI ''Hi. Go now'' 0.1)) = 2
   \<and> features (aiModel (analyzeTextForAI ''Hi. Go now'' 0.35))
       = features (aiModel (analyzeTextForAI ''Hi. Go now'' 0.1))"
proof -
  have le: "(0.1::real) \<le> 0.35" by simp
  have n1: "map score (aiSentenceSignals (analyzeTextForAI ''Hi. Go now'' 0.1)) = [16 / 135, 16 / 135]"
    by code_simp
  have "length (map score (aiSentenceSignals (analyzeTextForAI ''Hi. Go now'' 0.1))) = 2"
    unfolding n1 by simp
  then have l1: "length (aiSentenceSignals (analyzeTextForAI ''Hi. Go now'' 0.1)) = 2"
    by simp
  note m = flagging_monotone [OF le, of "''Hi. Go now''"]
  from m have "map score (aiSentenceSignals (analyzeTextForAI ''Hi. Go now'' 0.35))
        = filter (\<lambda>s. s \<ge> 0.35) (map score (aiSentenceSignals (analyzeTextForAI ''Hi. Go now'' 0.1)))"
    by (simp add: filter_map o_def)
  then have l2: "length (aiSentenceSignals (analyzeTextForAI ''Hi. Go now'' 0.35)) = 0"
    unfolding n1 by simp
  from le l1 l2 m show ?thesis by simp
qed

text \<open>
  C9. For every text and threshold, every flagged sentence has at least one reason: its
  reasons are those of \<open>aiSentenceScore\<close> for the sentence and the average sentence length
  of the document when one of the sub-feature thresholds fired, and the single fallback
  reason otherwise.
\<close>

theorem flagged_have_reasons:
  "list_all (\<lambda>x. reasons x \<noteq> []
        \<and> reasons x =
            (if s_reasons (aiSentenceScore (sentence x)
                  (avgSentenceLength (aiModel (analyzeTextForAI text thr)))) = []
             then [''Pattern-based AI signal'']
             else s_reasons (aiSentenceScore (sentence x)
                  (avgSentenceLength (aiModel (analyzeTextForAI text thr))))))
     (aiSentenceSignals (analyzeTextForAI text thr))"
  by (auto simp: analyzeTextForAI_def Let_def list_all_iff)

lemma no_reason_iff:
  "s_reasons (aiSentenceScore sent avgLen) = [] \<longleftrightarrow>
     \<not> s_rep (aiSentenceScore sent avgLen) > 0.35
   \<and> \<not> s_vdiv (aiSentenceScore sent avgLen) < 0.55
   \<and> \<not> s_uniformLenSignal (aiSentenceScore sent avgLen) > 0.8
   \<and> \<not> s_generic (aiSentenceScore sent avgLen) > 0
   \<and> \<not> s_trans (aiSentenceScore sent avgLen) > 0.5"
  by (simp add: aiSentenceScore_def Let_def)

theorem flagged_have_reasons_witness:
  "map reasons (aiSentenceSignals (analyzeTextForAI ''Hi. Go now'' 0.1))
     = [[''Pattern-based AI signal''], [''Pattern-based AI signal'']]
   \<and> list_all (\<lambda>x. reasons x \<noteq> []) (aiSentenceSignals (analyzeTextForAI ''Hi. Go now'' 0.1))"
proof -
  have r: "map reasons (aiSentenceSignals (analyzeTextForAI ''Hi. Go now'' 0.1))
     = [[''Pattern-based AI signal''], [''Pattern-based AI signal'']]"
    by code_simp
  from flagged_have_reasons [of "''Hi. Go now''" "0.1"]
  have "list_all (\<lambda>x. reasons x \<noteq> []) (aiSentenceSignals (analyzeTextForAI ''Hi. Go now'' 0.1))"
    by (simp add: list_all_iff)
  with r show ?thesis by (rule conjI)
qed

section \<open>Properties of the calibration classifier\<close>

lemma distance_on_first_axis:
  "distance \<lparr>avgRepetition = x, avgVocabDiversity = v, genericRate = g, transitionRate = t,
              uniformity' = u\<rparr>
            \<lparr>avgRepetition = y, avgVocabDiversity = v, genericRate = g, transitionRate = t,
              uniformity' = u\<rparr> = \<bar>x - y\<bar>"
  by (simp add: distance_def)

text \<open>
  C3. For every probe vector and every two reference profiles, exchanging the human and
  the AI profile negates the margin \<open>dAI - dHuman\<close>, exchanges the labels human and ai
  (uncertain stays), and leaves the confidence as it is.
\<close>

theorem classify_swap_symmetry:
  "margin_of (classifyWithCalibration f (Some h) (Some a)) = Some (distance f a - distance f h)
   \<and> margin_of (classifyWithCalibration f (Some a) (Some h)) = Some (- (distance f a - distance f h))
   \<and> label (classifyWithCalibration f (Some a) (Some h))
       = swap_label (label (classifyWithCalibration f (Some h) (Some a)))
   \<and> confidence (classifyWithCalibration f (Some a) (Some h))
       = confidence (classifyWithCalibration f (Some h) (Some a))"
  by (simp add: classifyWithCalibration_def margin_of_def Let_def abs_minus_commute)

text \<open>
  C4. For every probe vector and every two reference profiles whose distances to the probe
  differ by less than 0.06 in absolute value, the label is uncertain, whatever the sign of
  the margin.
\<close>

theorem uncertainty_band:
  assumes "\<bar>distance f a - distance f h\<bar> < 0.06"
  shows "label (classifyWithCalibration f (Some h) (Some a)) = Uncertain"
  using assms by (simp add: classifyWithCalibration_def Let_def)

theorem uncertainty_band_witness:
  "\<bar>distance \<lparr>avgRepetition = 0.5, avgVocabDiversity = 0.5, genericRate = 0.2, transitionRate = 0.1, uniformity' = 0.9\<rparr>
             \<lparr>avgRepetition = 0.45, avgVocabDiversity = 0.5, genericRate = 0.2, transitionRate = 0.1, uniformity' = 0.9\<rparr>
     - distance \<lparr>avgRepetition = 0.5, avgVocabDiversity = 0.5, genericRate = 0.2, transitionRate = 0.1, uniformity' = 0.9\<rparr>
             \<lparr>avgRepetition = 0.4, avgVocabDiversity = 0.5, genericRate = 0.2, transitionRate = 0.1, uniformity' = 0.9\<rparr>\<bar> < 0.06
   \<and> label (classifyWithCalibration
        \<lparr>avgRepetition = 0.5, avgVocabDiversity = 0.5, genericRate = 0.2, transitionRate = 0.1, uniformity' = 0.9\<rparr>
        (Some \<lparr>avgRepetition = 0.4, avgVocabDiversity = 0.5, genericRate = 0.2, transitionRate = 0.1, uniformity' = 0.9\<rparr>)
        (Some \<lparr>avgRepetition = 0.45, avgVocabDiversity = 0.5, genericRate = 0.2, transitionRate = 0.1, uniformity' = 0.9\<rparr>))
       = Uncertain"
proof -
  let ?f = "\<lparr>avgRepetition = 0.5, avgVocabDiversity = 0.5, genericRate = 0.2, transitionRate = 0.1, uniformity' = 0.9\<rparr>"
  let ?h = "\<lparr>avgRepetition = 0.4, avgVocabDiversity = 0.5, genericRate = 0.2, transitionRate = 0.1, uniformity' = 0.9\<rparr>"
  let ?a = "\<lparr>avgRepetition = 0.45, avgVocabDiversity = 0.5, genericRate = 0.2, transitionRate = 0.1, uniformity' = 0.9\<rparr>"
  have band: "\<bar>distance ?f ?a - distance ?f ?h\<bar> < 0.06"
    by (simp add: distance_on_first_axis)
  from band uncertainty_band [OF band] show ?thesis by (rule conjI)
qed

text \<open>
  C5. For every probe vector, when the human profile or the AI profile is missing, the
  label is uncertain, the confidence is 0 and both distances are absent.
\<close>

theorem missing_calibration:
  assumes "human = None \<or> ai = None"
  shows "label (classifyWithCalibration f human ai) = Uncertain
       \<and> confidence (classifyWithCalibration f human ai) = 0
       \<and> dHuman (classifyWithCalibration f human ai) = None
       \<and> dAI (classifyWithCalibration f human ai) = None"
  using assms by (auto simp: classifyWithCalibration_def split: option.splits)

theorem missing_calibration_witness:
  "label (classifyWithCalibration
      \<lparr>avgRepetition = 0.5, avgVocabDiversity = 0.5, genericRate = 0.2, transitionRate = 0.1, uniformity' = 0.9\<rparr>
      None
      (Some \<lparr>avgRepetition = 0.45, avgVocabDiversity = 0.5, genericRate = 0.2, transitionRate = 0.1, uniformity' = 0.9\<rparr>))
     = Uncertain
   \<and> confidence (classifyWithCalibration
      \<lparr>avgRepetition = 0.5, avgVocabDiversity = 0.5, genericRate = 0.2, transitionRate = 0.1, uniformity' = 0.9\<rparr>
      None
      (Some \<lparr>avgRepetition = 0.45, avgVocabDiversity = 0.5, genericRate = 0.2, transitionRate = 0.1, uniformity' = 0.9\<rparr>))
     = 0
   \<and> dAI (classifyWithCalibration
      \<lparr>avgRepetition = 0.5, avgVocabDiversity = 0.5, genericRate = 0.2, transitionRate = 0.1, uniformity' = 0.9\<rparr>
      (Some \<lparr>avgRepetition = 0.45, avgVocabDiversity = 0.5, genericRate = 0.2, transitionRate = 0.1, uniformity' = 0.9\<rparr>)
      None)
     = None"
proof -
  let ?f = "\<lparr>avgRepetition = 0.5, avgVocabDiversity = 0.5, genericRate = 0.2, transitionRate = 0.1, uniformity' = 0.9\<rparr>"
  let ?p = "\<lparr>avgRepetition = 0.45, avgVocabDiversity = 0.5, genericRate = 0.2, transitionRate = 0.1, uniformity' = 0.9\<rparr>"
  have l: "(None :: AIFeatureVector option) = None \<or> Some ?p = None" by simp
  have r: "Some ?p = None \<or> (None :: AIFeatureVector option) = None" by simp
  from missing_calibration [OF l, of ?f] missing_calibration [OF r, of ?f] show ?thesis
    by blast
qed

text \<open>
  C10. For every probe vector and every two reference profiles, a label that is not
  uncertain comes with a confidence of at least 0.24.
\<close>

theorem decided_confidence_lower_bound:
  assumes "label (classifyWithCalibration f (Some h) (Some a)) \<noteq> Uncertain"
  shows "0.24 \<le> confidence (classifyWithCalibration f (Some h) (Some a))"
proof -
  let ?m = "distance f a - distance f h"
  from assms have out: "\<not> \<bar>?m\<bar> < 0.06"
    by (auto simp: classifyWithCalibration_def Let_def split: if_splits)
  then have "0.24 \<le> \<bar>?m\<bar> / 0.25" by simp
  then have "0.24 \<le> clamp01 (\<bar>?m\<bar> / 0.25)" by (simp add: clamp01_def)
  with out show ?thesis
    by (simp add: classifyWithCalibration_def Let_def)
qed

theorem decided_confidence_lower_bound_witness:
  "label (classifyWithCalibration
      \<lparr>avgRepetition = 0.5, avgVocabDiversity = 0.5, genericRate = 0.2, transitionRate = 0.1, uniformity' = 0.9\<rparr>
      (Some \<lparr>avgRepetition = 0.5, avgVocabDiversity = 0.5, genericRate = 0.2, transitionRate = 0.1, uniformity' = 0.9\<rparr>)
      (Some \<lparr>avgRepetition = 0.44, avgVocabDiversity = 0.5, genericRate = 0.2, transitionRate = 0.1, uniformity' = 0.9\<rparr>))
     = Human
   \<and> 0.24 \<le> confidence (classifyWithCalibration
      \<lparr>avgRepetition = 0.5, avgVocabDiversity = 0.5, genericRate = 0.2, transitionRate = 0.1, uniformity' = 0.9\<rparr>
      (Some \<lparr>avgRepetition = 0.5, avgVocabDiversity = 0.5, genericRate = 0.2, transitionRate = 0.1, uniformity' = 0.9\<rparr>)
      (Some \<lparr>avgRepetition = 0.44, avgVocabDiversity = 0.5, genericRate = 0.2, transitionRate = 0.1, uniformity' = 0.9\<rparr>))"
proof -
  let ?f = "\<lparr>avgRepetition = 0.5, avgVocabDiversity = 0.5, genericRate = 0.2, transitionRate = 0.1, uniformity' = 0.9\<rparr>"
  let ?a = "\<lparr>avgRepetition = 0.44, avgVocabDiversity = 0.5, genericRate = 0.2, transitionRate = 0.1, uniformity' = 0.9\<rparr>"
  have lab: "label (classifyWithCalibration ?f (Some ?f) (Some ?a)) = Human"
    by (simp add: classifyWithCalibration_def Let_def distance_on_first_axis)
  then have "label (classifyWithCalibration ?f (Some ?f) (Some ?a)) \<noteq> Uncertain" by simp
  from lab decided_confidence_lower_bound [OF this] show ?thesis by (rule conjI)
qed

section \<open>Properties of the citation detector\<close>

lemma findIndex_found:
  assumes "x \<in> set xs" and "P x"
  shows "0 \<le> findIndex P xs \<and> nat (findIndex P xs) < length xs \<and> P (xs ! nat (findIndex P xs))"
  using assms
proof (induction xs)
  case Nil
  then show ?case by simp
next
  case (Cons y ys)
  show ?case
  proof (cases "P y")
    case True
    then show ?thesis by simp
  next
    case False
    with Cons.prems have "x \<in> set ys" by auto
    from Cons.IH [OF this Cons.prems(2)] False show ?thesis
      by (simp add: Let_def nat_add_distrib)
  qed
qed

lemma first_of_message_kept:
  assumes "v \<in> set a"
  shows "\<exists>u \<in> set (map snd (filter (\<lambda>(i, w). findIndex (\<lambda>t. message t = message w) a = int i)
                                     (enumerate 0 a))). message u = message v"
proof -
  let ?k = "nat (findIndex (\<lambda>t. message t = message v) a)"
  from findIndex_found [of v a "\<lambda>t. message t = message v"] assms
  have k: "0 \<le> findIndex (\<lambda>t. message t = message v) a" "?k < length a"
    "message (a ! ?k) = message v"
    by simp_all
  have "(?k, a ! ?k) \<in> set (enumerate 0 a)"
    using k(2) by (simp add: in_set_enumerate_eq)
  moreover have "findIndex (\<lambda>t. message t = message (a ! ?k)) a = int ?k"
    using k(1) by (simp add: k(3))
  ultimately have "a ! ?k \<in> set (map snd (filter (\<lambda>(i, w). findIndex (\<lambda>t. message t = message w) a = int i)
                                     (enumerate 0 a)))"
    by force
  with k(3) show ?thesis by blast
qed

lemma deduplicated_subset:
  "set (map snd (filter (\<lambda>(i, w). findIndex (\<lambda>t. message t = message w) a = int i)
                       (enumerate 0 a))) \<subseteq> set a"
  by (auto simp: in_set_enumerate_eq)

lemma line_issues_keeps: "set issues \<subseteq> set (line_issues issues line)"
  by (auto simp: line_issues_def Let_def)

lemma foldl_line_issues_keeps: "set issues \<subseteq> set (foldl line_issues issues lines)"
proof (induction lines arbitrary: issues)
  case Nil
  then show ?case by simp
next
  case (Cons l ls)
  have "set issues \<subseteq> set (line_issues issues l)" by (rule line_issues_keeps)
  also have "\<dots> \<subseteq> set (foldl line_issues (line_issues issues l) ls)" by (rule Cons.IH)
  finally show ?case by simp
qed

lemma line_issues_statistic:
  assumes "hasYear line \<or> hasNumber line" and "\<not> hasInlineCitation line" and "length line \<ge> 10"
  shows "statistic_issue \<in> set (line_issues issues line)"
  using assms by (auto simp: line_issues_def Let_def)

lemma foldl_line_issues_statistic:
  assumes "line \<in> set lines" and "hasYear line \<or> hasNumber line"
    and "\<not> hasInlineCitation line" and "length line \<ge> 10"
  shows "statistic_issue \<in> set (foldl line_issues issues lines)"
  using assms(1)
proof (induction lines arbitrary: issues)
  case Nil
  then show ?case by simp
next
  case (Cons l ls)
  show ?case
  proof (cases "line = l")
    case True
    have "statistic_issue \<in> set (line_issues issues l)"
      unfolding True [symmetric] by (rule line_issues_statistic [OF assms(2-4)])
    with foldl_line_issues_keeps [of "line_issues issues l" ls] show ?thesis by auto
  next
    case False
    with Cons.prems have "line \<in> set ls" by simp
    from Cons.IH [OF this] show ?thesis by simp
  qed
qed

lemma line_issues_range:
  "set issues \<subseteq> {noWorksCited_issue, statistic_issue, quote_issue}
   \<Longrightarrow> set (line_issues issues line) \<subseteq> {noWorksCited_issue, statistic_issue, quote_issue}"
  by (auto simp: line_issues_def Let_def)

lemma foldl_line_issues_range:
  "set issues \<subseteq> {noWorksCited_issue, statistic_issue, quote_issue}
   \<Longrightarrow> set (foldl line_issues issues lines) \<subseteq> {noWorksCited_issue, statistic_issue, quote_issue}"
proof (induction lines arbitrary: issues)
  case Nil
  then show ?case by simp
next
  case (Cons l ls)
  from Cons.IH [OF line_issues_range [OF Cons.prems]] show ?case by simp
qed

lemma statistic_message_unique:
  assumes "u \<in> {noWorksCited_issue, statistic_issue, quote_issue}"
    and "message u = message statistic_issue"
  shows "u = statistic_issue"
  using assms by (auto simp: noWorksCited_issue_def statistic_issue_def quote_issue_def)

text \<open>
  C8, as amended. For every text, if some line of \<open>splitLines\<close> (a piece between line
  breaks, trimmed, not empty) is at least 10 characters long, has a match of the year
  pattern \<open>year_regex\<close> or of one of the number patterns \<open>number_regex\<close> and
  \<open>unit_regex\<close> (a year 19xx or 20xx, a number, or one of the words million, billion and
  percent, each standing as a word of its own), and has no match of the citation pattern
  \<open>inlineCitation_regex\<close> (a parenthesis that holds two to four digits after at least one
  other character, a parenthesis that opens with a capital letter followed by a letter or
  hyphen, or a bracketed numeral), then \<open>findCitationIssues\<close> returns the
  \<open>missing_citation\<close> issue for a statistic or year without a citation.
\<close>

theorem uncited_statistic_reported:
  assumes "line \<in> set (splitLines text)" and "hasYear line \<or> hasNumber line"
    and "\<not> hasInlineCitation line" and "length line \<ge> 10"
  shows "statistic_issue \<in> set (findCitationIssues text)
       \<and> type statistic_issue = missing_citation
       \<and> message statistic_issue = ''A statistic or year appears without a citation.''"
proof -
  define issues0 where "issues0 = (if \<not> hasWorksCitedSection text then [noWorksCited_issue] else [])"
  define issues where "issues = foldl line_issues issues0 (splitLines text)"
  have res: "findCitationIssues text =
      map snd (filter (\<lambda>(i, w). findIndex (\<lambda>t. message t = message w) issues = int i)
                 (enumerate 0 issues))"
    by (simp add: findCitationIssues_def Let_def issues_def issues0_def)
  have "statistic_issue \<in> set issues"
    unfolding issues_def by (rule foldl_line_issues_statistic [OF assms])
  from first_of_message_kept [OF this] obtain u
    where u: "u \<in> set (findCitationIssues text)" "message u = message statistic_issue"
    unfolding res by blast
  have "set issues0 \<subseteq> {noWorksCited_issue, statistic_issue, quote_issue}"
    by (auto simp: issues0_def)
  then have "set issues \<subseteq> {noWorksCited_issue, statistic_issue, quote_issue}"
    unfolding issues_def by (rule foldl_line_issues_range)
  with u(1) deduplicated_subset [of issues] have "u \<in> {noWorksCited_issue, statistic_issue, quote_issue}"
    unfolding res by blast
  from statistic_message_unique [OF this u(2)] u(1)
  have "statistic_issue \<in> set (findCitationIssues text)" by simp
  then show ?thesis by (simp add: statistic_issue_def)
qed

theorem uncited_statistic_reported_witness:
  "splitLines ''In 2020, 75% of students reported stress.''
     = [''In 2020, 75% of students reported stress.'']
   \<and> hasYear ''In 2020, 75% of students reported stress.''
   \<and> \<not> hasInlineCitation ''In 2020, 75% of students reported stress.''
   \<and> statistic_issue \<in> set (findCitationIssues ''In 2020, 75% of students reported stress.'')"
proof -
  let ?t = "''In 2020, 75% of students reported stress.''"
  have l: "splitLines ?t = [?t]" by code_simp
  have y: "hasYear ?t" by code_simp
  have c: "\<not> hasInlineCitation ?t" by code_simp
  have n: "length ?t \<ge> 10" by simp
  from l have m: "?t \<in> set (splitLines ?t)" by simp
  from y have yn: "hasYear ?t \<or> hasNumber ?t" by (rule disjI1)
  from uncited_statistic_reported [OF m yn c n] l y c show ?thesis by simp
qed

text \<open>
  The claim C8 as first stated fails in three ways.  The text \<open>In 2020\<close> is one line with
  a year and no citation marker, but it has 7 characters.  The line
  \<open>In 2020 the club grew (about 50 people).\<close> has a year and 40 characters, and its only
  parenthesis names no author and no year, but the citation pattern accepts it.  The line
  \<open>Sales rose in the 1990s.\<close> has 24 characters and no parenthesis or bracket, and the year
  1990 is in it, but followed by a letter, so that neither the year pattern nor a number
  pattern matches.  In all three cases the only issue returned is the missing reference
  section.
\<close>

theorem statistic_claim_counterexample:
  "splitLines ''In 2020'' = [''In 2020'']
   \<and> hasYear ''In 2020'' \<and> \<not> hasInlineCitation ''In 2020''
   \<and> findCitationIssues ''In 2020'' = [noWorksCited_issue]
   \<and> splitLines ''In 2020 the club grew (about 50 people).''
       = [''In 2020 the club grew (about 50 people).'']
   \<and> hasYear ''In 2020 the club grew (about 50 people).''
   \<and> length ''In 2020 the club grew (about 50 people).'' = 40
   \<and> hasInlineCitation ''In 2020 the club grew (about 50 people).''
   \<and> findCitationIssues ''In 2020 the club grew (about 50 people).'' = [noWorksCited_issue]
   \<and> splitLines ''Sales rose in the 1990s.'' = [''Sales rose in the 1990s.'']
   \<and> str_includes ''Sales rose in the 1990s.'' ''1990''
   \<and> length ''Sales rose in the 1990s.'' = 24
   \<and> \<not> hasYear ''Sales rose in the 1990s.'' \<and> \<not> hasNumber ''Sales rose in the 1990s.''
   \<and> \<not> hasInlineCitation ''Sales rose in the 1990s.''
   \<and> findCitationIssues ''Sales rose in the 1990s.'' = [noWorksCited_issue]
   \<and> statistic_issue \<noteq> noWorksCited_issue"
proof -
  have a: "splitLines ''In 2020'' = [''In 2020'']"
    "hasYear ''In 2020''" "\<not> hasInlineCitation ''In 2020''"
    "findCitationIssues ''In 2020'' = [noWorksCited_issue]"
    by code_simp+
  have b: "splitLines ''In 2020 the club grew (about 50 people).''
       = [''In 2020 the club grew (about 50 people).'']"
    "hasYear ''In 2020 the club grew (about 50 people).''"
    "hasInlineCitation ''In 2020 the club grew (about 50 people).''"
    "findCitationIssues ''In 2020 the club grew (about 50 people).'' = [noWorksCited_issue]"
    by code_simp+
  have c: "splitLines ''Sales rose in the 1990s.'' = [''Sales rose in the 1990s.'']"
    "str_includes ''Sales rose in the 1990s.'' ''1990''"
    "\<not> hasYear ''Sales rose in the 1990s.''" "\<not> hasNumber ''Sales rose in the 1990s.''"
    "\<not> hasInlineCitation ''Sales rose in the 1990s.''"
    "findCitationIssues ''Sales rose in the 1990s.'' = [noWorksCited_issue]"
    by code_simp+
  have d: "statistic_issue \<noteq> noWorksCited_issue"
    by (simp add: statistic_issue_def noWorksCited_issue_def)
  from a b c d show ?thesis by simp
qed

end
